theory Spec2Isabelle
  imports Main
begin

section \<open>Python values shared by the modules\<close>

text \<open>
  Strings are lists of 8-bit characters, read as code points below 256. Exceptions are
  values: every \<open>raise\<close> of the source is an \<open>Inl\<close> of the model. \<open>ValueError\<close> stands
  for the class and its subclasses, \<open>StorageError\<close> for the failures of the database
  driver and of the ORM, \<open>GeneratorExit\<close> and \<open>CancelledError\<close> for the two classes
  that derive from \<open>BaseException\<close> only, which \<open>except Exception\<close> does not catch.
\<close>

datatype exn =
    ValueError string
  | HTTPException nat string
  | StorageError string
  | OtherException string
  | GeneratorExit
  | CancelledError

fun is_Exception :: "exn \<Rightarrow> bool" where
  "is_Exception GeneratorExit = False"
| "is_Exception CancelledError = False"
| "is_Exception _ = True"


definition digit_char :: "nat \<Rightarrow> char" where
  "digit_char d = char_of (48 + d)"

fun show_nat :: "nat \<Rightarrow> string" where
  "show_nat n = (if n < 10 then [digit_char n] else show_nat (n div 10) @ [digit_char (n mod 10)])"

declare show_nat.simps [simp del]

text \<open>
  \<open>str(e)\<close>: the message of the exception; Starlette's \<open>HTTPException\<close> prints as
  its status code, a colon and its detail.
\<close>

fun str_exn :: "exn \<Rightarrow> string" where
  "str_exn (ValueError m) = m"
| "str_exn (HTTPException c d) = show_nat c @ '': '' @ d"
| "str_exn (StorageError m) = m"
| "str_exn (OtherException m) = m"
| "str_exn GeneratorExit = []"
| "str_exn CancelledError = []"

text \<open>\<open>s.startswith(p)\<close>, \<open>p in s\<close> and \<open>s.split(sep)[0]\<close> on strings.\<close>

definition startswith :: "string \<Rightarrow> string \<Rightarrow> bool" where
  "startswith s p = (take (length p) s = p)"

fun contains :: "string \<Rightarrow> string \<Rightarrow> bool" where
  "contains [] p = (p = [])"
| "contains (c # cs) p = (startswith (c # cs) p \<or> contains cs p)"

fun split_first :: "string \<Rightarrow> string \<Rightarrow> string" where
  "split_first [] sep = []"
| "split_first (c # cs) sep = (if startswith (c # cs) sep then [] else c # split_first cs sep)"

section \<open>database_configuration.py: module initialisation\<close>

record pool_config =
  pool_size :: nat
  max_overflow :: nat
  pool_recycle :: nat
  pool_timeout :: nat
  pool_pre_ping :: bool

record engine =
  engine_url :: string
  engine_echo :: bool
  engine_pool :: pool_config

definition is_pooler :: "string \<Rightarrow> bool" where
  "is_pooler DATABASE_URL = contains DATABASE_URL '':6543/''"

definition connection_type :: "string \<Rightarrow> string" where
  "connection_type DATABASE_URL =
     (if is_pooler DATABASE_URL then ''Connection Pooler (port 6543)''
      else ''Direct Connection (port 5432)'')"

definition pool_config :: "string \<Rightarrow> pool_config" where
  "pool_config DATABASE_URL =
     (if is_pooler DATABASE_URL then
        \<lparr>pool_size = 3, max_overflow = 5, pool_recycle = 300, pool_timeout = 30,
         pool_pre_ping = True\<rparr>
      else
        \<lparr>pool_size = 5, max_overflow = 10, pool_recycle = 1800, pool_timeout = 30,
         pool_pre_ping = True\<rparr>)"

definition missing_url_message :: string where
  "missing_url_message =
     ''DATABASE_URL not found in environment variables. '' @
     ''Please create a .env file with DATABASE_URL or set it as an environment variable.''"

definition wrong_driver_message :: "string \<Rightarrow> string" where
  "wrong_driver_message DATABASE_URL =
     ''DATABASE_URL must use 'postgresql+psycopg://' driver for async support. '' @
     ''Current: '' @
     (if contains DATABASE_URL ''://'' then split_first DATABASE_URL ''://'' else ''invalid'')"

text \<open>
  \<open>create_async_engine(url, echo=..., **pool_config)\<close> of the library: \<open>engine_error\<close>
  is what it raises for a connection string it cannot make an engine of (a port that
  is no number, for one), if it raises.
\<close>

definition create_async_engine ::
  "(string \<Rightarrow> exn option) \<Rightarrow> string \<Rightarrow> bool \<Rightarrow> pool_config \<Rightarrow> exn + engine" where
  "create_async_engine engine_error url echo pool =
     (case engine_error url of
        Some e \<Rightarrow> Inl e
      | None \<Rightarrow> Inr \<lparr>engine_url = url, engine_echo = echo, engine_pool = pool\<rparr>)"

text \<open>
  The statements at module level, in their order. The argument \<open>env\<close> is what
  \<open>os.getenv("DATABASE_URL")\<close> returns: \<open>None\<close> when the variable is not set. An empty
  string is falsy, so \<open>not DATABASE_URL\<close> holds for it too.
\<close>

definition database_configuration :: "(string \<Rightarrow> exn option) \<Rightarrow> string option \<Rightarrow> exn + engine" where
  "database_configuration engine_error env =
     (case env of
        None \<Rightarrow> Inl (ValueError missing_url_message)
      | Some DATABASE_URL \<Rightarrow>
          if DATABASE_URL = [] then Inl (ValueError missing_url_message)
          else if \<not> startswith DATABASE_URL ''postgresql+psycopg://''
          then Inl (ValueError (wrong_driver_message DATABASE_URL))
          else create_async_engine engine_error DATABASE_URL False (pool_config DATABASE_URL))"

text \<open>
  \<open>set_timezone\<close>, the hook the engine runs on every new connection of the driver. The
  three first arguments are what \<open>dbapi_conn.cursor()\<close>, \<open>cursor.execute(...)\<close> and
  \<open>cursor.close()\<close> raise, if they raise. The connection counts its open cursors and
  keeps the statements executed; \<open>warnings\<close> is what the logger was given. The
  result is the exception that leaves the hook, if one does.
\<close>

record dbapi_connection =
  cursors_open :: nat
  executed :: "string list"
  warnings :: "string list"

definition set_time_zone_statement :: string where
  "set_time_zone_statement = ''SET TIME ZONE '' @ [CHR 0x27] @ ''UTC'' @ [CHR 0x27]"

definition could_not_set_timezone :: "exn \<Rightarrow> dbapi_connection \<Rightarrow> exn option \<times> dbapi_connection" where
  "could_not_set_timezone e c =
     (if is_Exception e
      then (None, c\<lparr>warnings := warnings c @ [''Could not set timezone: '' @ str_exn e]\<rparr>)
      else (Some e, c))"

definition set_timezone ::
  "exn option \<Rightarrow> exn option \<Rightarrow> exn option \<Rightarrow> dbapi_connection \<Rightarrow> exn option \<times> dbapi_connection" where
  "set_timezone cursor_fault execute_fault close_fault c =
     (case cursor_fault of
        Some e \<Rightarrow> could_not_set_timezone e c
      | None \<Rightarrow>
          (let c1 = c\<lparr>cursors_open := Suc (cursors_open c)\<rparr> in
           case execute_fault of
             Some e \<Rightarrow> could_not_set_timezone e c1
           | None \<Rightarrow>
               (let c2 = c1\<lparr>executed := executed c1 @ [set_time_zone_statement]\<rparr> in
                case close_fault of
                  Some e \<Rightarrow> could_not_set_timezone e c2
                | None \<Rightarrow> (None, c2\<lparr>cursors_open := cursors_open c2 - 1\<rparr>))))"


section \<open>main.py: start of the process\<close>

text \<open>
  \<open>main.py\<close> imports \<open>database_configuration\<close> at line 21, before it imports the
  controller and calls \<open>create_app(lifespan)\<close> at line 61: an exception of the import
  ends the module, and no application object exists.
\<close>

record application =
  app_title :: string
  app_engine :: engine

definition main_module :: "(string \<Rightarrow> exn option) \<Rightarrow> string option \<Rightarrow> exn + application" where
  "main_module engine_error env =
     (case database_configuration engine_error env of
        Inl e \<Rightarrow> Inl e
      | Inr eng \<Rightarrow> Inr \<lparr>app_title = ''Smart Band Edge Service'', app_engine = eng\<rparr>)"

section \<open>database_configuration.py: sessions\<close>

text \<open>
  The calls a session receives, in the order they are made, and the sessions that were
  made and are not closed yet. \<open>async_session_maker()\<close> makes a new session object at
  every call.
\<close>

datatype session_call = Execute string | Commit | Rollback | Close

record pool =
  next_session :: nat
  active :: "nat list"
  calls :: "(nat \<times> session_call) list"

definition async_session_maker :: "pool \<Rightarrow> nat \<times> pool" where
  "async_session_maker p =
     (next_session p,
      p\<lparr>next_session := Suc (next_session p), active := active p @ [next_session p]\<rparr>)"

definition session_call :: "nat \<Rightarrow> session_call \<Rightarrow> pool \<Rightarrow> pool" where
  "session_call sid c p = p\<lparr>calls := calls p @ [(sid, c)]\<rparr>"

definition session_close :: "nat \<Rightarrow> pool \<Rightarrow> pool" where
  "session_close sid p = (session_call sid Close p)\<lparr>active := removeAll sid (active p)\<rparr>"

text \<open>
  \<open>get_db_session\<close> is an asynchronous generator with one \<open>yield\<close>.
  \<open>get_db_session_enter\<close> is its run up to the \<open>yield\<close>; \<open>get_db_session_exit\<close> is its
  run from the \<open>yield\<close> on, for each way its consumer resumes it: \<open>Next\<close> when the
  consumer's work is done, \<open>Throw e\<close> when the consumer throws \<open>e\<close> into it, \<open>Aclose\<close>
  when the generator is closed, which raises \<open>GeneratorExit\<close> at the \<open>yield\<close>. The
  result is the exception that leaves the generator, if one does. \<open>rollback_fault\<close> is
  what \<open>session.rollback()\<close> raises, if it raises. After the \<open>finally\<close> clause, the
  \<open>async with\<close> block closes the session once more on its way out.
\<close>

datatype resume = Next | Throw exn | Aclose

definition get_db_session_enter :: "pool \<Rightarrow> nat \<times> pool" where
  "get_db_session_enter p = async_session_maker p"

definition leave_session :: "nat \<Rightarrow> pool \<Rightarrow> pool" where
  "leave_session sid p = session_close sid (session_close sid p)"

fun get_db_session_exit :: "exn option \<Rightarrow> resume \<Rightarrow> nat \<Rightarrow> pool \<Rightarrow> exn option \<times> pool" where
  "get_db_session_exit rollback_fault Next sid p = (None, leave_session sid p)"
| "get_db_session_exit rollback_fault (Throw e) sid p =
     (if is_Exception e then
        (case rollback_fault of
           Some e2 \<Rightarrow> (Some e2, leave_session sid (session_call sid Rollback p))
         | None \<Rightarrow> (Some e, leave_session sid (session_call sid Rollback p)))
      else (Some e, leave_session sid p))"
| "get_db_session_exit rollback_fault Aclose sid p = (None, leave_session sid p)"

section \<open>heart_rate_controller.py: maintenance endpoints\<close>

datatype http_method = GET | HEAD

record health_response =
  h_status :: string
  h_service :: string
  h_timestamp :: string

definition health_check :: "string \<Rightarrow> health_response" where
  "health_check now = \<lparr>h_status = ''healthy'', h_service = ''smart-band-edge-service'',
     h_timestamp = now\<rparr>"

text \<open>The dictionaries the maintenance endpoints return: a key that is absent is \<open>None\<close>.\<close>

record probe_response =
  p_status :: string
  p_timestamp :: "string option"
  p_database :: "string option"
  p_message :: "string option"

text \<open>
  \<open>keepalive\<close>: \<open>now\<close> is \<open>datetime.now(UTC).isoformat()\<close>, \<open>probe\<close> is what
  \<open>session.execute(text("SELECT 1"))\<close> followed by \<open>result.scalar()\<close> gives: the
  exception raised or the scalar read. The body of the \<open>async for\<close> returns at its
  first iteration or raises in the consumer, so the generator stays suspended at its
  \<open>yield\<close> when the endpoint is left: the pool returned is the one at that moment.
\<close>

definition keepalive :: "http_method \<Rightarrow> string \<Rightarrow> (exn + int option) \<Rightarrow> pool \<Rightarrow> (exn + probe_response) \<times> pool" where
  "keepalive method now probe p =
     (if method = HEAD then
        (Inr \<lparr>p_status = ''alive'', p_timestamp = None, p_database = None, p_message = None\<rparr>, p)
      else
        (let (session, p1) = get_db_session_enter p;
             p2 = session_call session (Execute ''SELECT 1'') p1
         in case probe of
              Inr db_status \<Rightarrow>
                (Inr \<lparr>p_status = ''alive'', p_timestamp = Some now,
                      p_database = Some (if db_status = Some 1 then ''connected'' else ''disconnected''),
                      p_message = Some ''Keep-alive ping successful''\<rparr>, p2)
            | Inl e \<Rightarrow>
                if is_Exception e then
                  (Inr \<lparr>p_status = ''error'', p_timestamp = Some now,
                        p_database = Some ''error'', p_message = Some (str_exn e)\<rparr>, p2)
                else (Inl e, p2)))"

definition ping :: "http_method \<Rightarrow> string \<Rightarrow> probe_response" where
  "ping method now =
     (if method = HEAD then
        \<lparr>p_status = ''pong'', p_timestamp = None, p_database = None, p_message = None\<rparr>
      else
        \<lparr>p_status = ''pong'', p_timestamp = Some now, p_database = None, p_message = None\<rparr>)"


section \<open>The builtin int\<close>

text \<open>
  \<open>int(x)\<close> for the two kinds of value the request carries as its pulse. On a string:
  white space is skipped on both sides (the code points 9 to 13, 32, 133 and 160, among
  those below 256), one sign may come first, then decimal digits with single
  underscores between digits; a string of more than 4300 digits is refused.
  \<open>repr\<close> of the whole string is part of the message, cut at 200 characters.
\<close>

datatype pulse_value = PInt int | PStr string

definition is_space :: "char \<Rightarrow> bool" where
  "is_space c = (of_char c \<in> set [9, 10, 11, 12, 13, 32, 133, 160 :: nat])"

definition is_digit :: "char \<Rightarrow> bool" where
  "is_digit c = (48 \<le> (of_char c :: nat) \<and> (of_char c :: nat) \<le> 57)"

definition digit_value :: "char \<Rightarrow> int" where
  "digit_value c = int (of_char c) - 48"

fun parse_digits :: "int \<Rightarrow> bool \<Rightarrow> string \<Rightarrow> int option" where
  "parse_digits acc after_digit [] = (if after_digit then Some acc else None)"
| "parse_digits acc after_digit (c # cs) =
     (if is_digit c then parse_digits (10 * acc + digit_value c) True cs
      else if c = CHR ''_'' \<and> after_digit then parse_digits acc False cs
      else None)"

definition hex_char :: "nat \<Rightarrow> char" where
  "hex_char d = (if d < 10 then char_of (48 + d) else char_of (87 + d))"

definition is_printable :: "char \<Rightarrow> bool" where
  "is_printable c =
     (let n = (of_char c :: nat) in 32 \<le> n \<and> n \<noteq> 127 \<and> \<not> (128 \<le> n \<and> n \<le> 160) \<and> n \<noteq> 173)"

definition repr_char :: "char \<Rightarrow> char \<Rightarrow> string" where
  "repr_char quote c =
     (if c = quote \<or> c = CHR 0x5C then [CHR 0x5C, c]
      else if c = CHR 0x09 then [CHR 0x5C, CHR ''t'']
      else if c = CHR 0x0A then [CHR 0x5C, CHR ''n'']
      else if c = CHR 0x0D then [CHR 0x5C, CHR ''r'']
      else if \<not> is_printable c then
        [CHR 0x5C, CHR ''x'', hex_char (of_char c div 16), hex_char (of_char c mod 16)]
      else [c])"

definition py_repr :: "string \<Rightarrow> string" where
  "py_repr s =
     (let quote = (if CHR 0x27 \<in> set s \<and> CHR 0x22 \<notin> set s then CHR 0x22 else CHR 0x27)
      in [quote] @ concat (map (repr_char quote) s) @ [quote])"

definition invalid_literal :: "string \<Rightarrow> exn" where
  "invalid_literal s =
     ValueError (''invalid literal for int() with base 10: '' @ take 200 (py_repr s))"

definition exceeds_limit :: "nat \<Rightarrow> exn" where
  "exceeds_limit n =
     ValueError (''Exceeds the limit (4300 digits) for integer string conversion: value has '' @
       show_nat n @ '' digits; use sys.set_int_max_str_digits() to increase the limit'')"

definition in_number :: "char \<Rightarrow> bool" where
  "in_number c = (is_digit c \<or> c = CHR ''_'')"

definition int_of_str :: "string \<Rightarrow> exn + int" where
  "int_of_str s =
     (let t = dropWhile is_space s;
          negative = (case t of [] \<Rightarrow> False | c # r \<Rightarrow> c = CHR ''-'');
          u = (case t of [] \<Rightarrow> [] | c # r \<Rightarrow> if c = CHR ''-'' \<or> c = CHR ''+'' then r else t);
          run = takeWhile in_number u;
          rest = dropWhile in_number u;
          digits = length (filter is_digit run)
      in case parse_digits 0 False run of
           None \<Rightarrow> Inl (invalid_literal s)
         | Some v \<Rightarrow>
             if 4300 < digits then Inl (exceeds_limit digits)
             else if dropWhile is_space rest \<noteq> [] then Inl (invalid_literal s)
             else Inr (if negative then - v else v))"

fun py_int :: "pulse_value \<Rightarrow> exn + int" where
  "py_int (PInt n) = Inr n"
| "py_int (PStr s) = int_of_str s"

section \<open>heart_rate_controller.py: the endpoints of the readings\<close>

text \<open>
  The request and response objects, the command, the queries and the entity as the
  controller reads and builds them. The status enumeration is a type parameter;
  \<open>status_value\<close> is its \<open>.value\<close>.
\<close>

record request_dto =
  smartBandId :: int
  pulse :: pulse_value

record command =
  c_smart_band_id :: int
  c_pulse :: int

record 'st reading =
  r_id :: int
  r_smart_band_id :: int
  r_pulse :: int
  r_status :: 'st
  r_timestamp :: nat

record 'st record_response =
  dto_id :: int
  dto_smart_band_id :: int
  dto_pulse :: int
  dto_status :: 'st
  dto_timestamp :: nat
  dto_message :: string

text \<open>
  The two \<open>except\<close> clauses of \<open>record_heart_rate\<close>, in their order: what the
  endpoint raises for an exception of its \<open>try\<close> block.
\<close>

fun except_clauses :: "exn \<Rightarrow> exn" where
  "except_clauses (ValueError m) = HTTPException 400 m"
| "except_clauses e =
     (if is_Exception e then HTTPException 500 (''Internal server error: '' @ str_exn e) else e)"

text \<open>
  \<open>record_heart_rate\<close>: \<open>handle\<close> is the injected command handler's \<open>handle\<close> (with the
  construction of the command), \<open>find_by_id\<close> the repository's, both over a state
  \<open>'db\<close> of the store they work on. \<open>Inr\<close> is the response of status 201.
\<close>

definition record_heart_rate ::
  "(command \<Rightarrow> 'db \<Rightarrow> (exn + int) \<times> 'db) \<Rightarrow> (int \<Rightarrow> 'db \<Rightarrow> (exn + 'st reading option) \<times> 'db) \<Rightarrow>
   ('st \<Rightarrow> string) \<Rightarrow> request_dto \<Rightarrow> 'db \<Rightarrow> (exn + 'st record_response) \<times> 'db" where
  "record_heart_rate handle find_by_id status_value request db =
     (case py_int (pulse request) of
        Inl e \<Rightarrow> (Inl (except_clauses e), db)
      | Inr n \<Rightarrow>
          (case handle \<lparr>c_smart_band_id = smartBandId request, c_pulse = n\<rparr> db of
             (Inl e, db1) \<Rightarrow> (Inl (except_clauses e), db1)
           | (Inr reading_id, db1) \<Rightarrow>
               (case find_by_id reading_id db1 of
                  (Inl e, db2) \<Rightarrow> (Inl (except_clauses e), db2)
                | (Inr None, db2) \<Rightarrow>
                    (Inl (except_clauses (HTTPException 500 ''Failed to retrieve created reading'')), db2)
                | (Inr (Some reading), db2) \<Rightarrow>
                    (Inr \<lparr>dto_id = r_id reading,
                          dto_smart_band_id = r_smart_band_id reading,
                          dto_pulse = r_pulse reading,
                          dto_status = r_status reading,
                          dto_timestamp = r_timestamp reading,
                          dto_message = ''Heart rate recorded successfully. Status: '' @
                            status_value (r_status reading)\<rparr>, db2))))"

text \<open>The status code of what the record endpoint gives back.\<close>

fun status_code :: "exn + 'a \<Rightarrow> nat" where
  "status_code (Inr _) = 201"
| "status_code (Inl (HTTPException c _)) = c"
| "status_code (Inl _) = 500"

record history_query =
  q_smart_band_id :: int
  q_limit :: int

record 'st history_item =
  i_id :: int
  i_pulse :: int
  i_status :: 'st
  i_timestamp :: nat

record 'st history_response =
  hr_smart_band_id :: int
  hr_readings :: "'st history_item list"
  hr_total :: nat

definition history_item :: "'st reading \<Rightarrow> 'st history_item" where
  "history_item r = \<lparr>i_id = r_id r, i_pulse = r_pulse r, i_status = r_status r,
     i_timestamp = r_timestamp r\<rparr>"

text \<open>
  \<open>get_heart_rate_history\<close>: the query parameter \<open>limit\<close> is \<open>None\<close> when the caller
  gives none, and the signature's default is taken. There is no \<open>try\<close>: an exception
  of the handler leaves the endpoint as it is.
\<close>

definition get_heart_rate_history ::
  "(history_query \<Rightarrow> 'db \<Rightarrow> exn + 'st reading list) \<Rightarrow> int \<Rightarrow> int option \<Rightarrow> 'db \<Rightarrow>
   exn + 'st history_response" where
  "get_heart_rate_history get_history smart_band_id limit db =
     (let query = \<lparr>q_smart_band_id = smart_band_id,
                   q_limit = (case limit of None \<Rightarrow> 10 | Some l \<Rightarrow> l)\<rparr>
      in case get_history query db of
           Inl e \<Rightarrow> Inl e
         | Inr readings \<Rightarrow>
             Inr \<lparr>hr_smart_band_id = smart_band_id,
                  hr_readings = map history_item readings,
                  hr_total = length readings\<rparr>)"

text \<open>
  \<open>get_heart_rate_statistics\<close>: \<open>response_dto\<close> is the construction
  \<open>StatisticsResponseDTO(**stats)\<close>.
\<close>

definition get_heart_rate_statistics ::
  "(int \<Rightarrow> 'db \<Rightarrow> exn + 'stats) \<Rightarrow> ('stats \<Rightarrow> exn + 'dto) \<Rightarrow> int \<Rightarrow> 'db \<Rightarrow> exn + 'dto" where
  "get_heart_rate_statistics get_statistics response_dto smart_band_id db =
     (case get_statistics smart_band_id db of
        Inl e \<Rightarrow> Inl e
      | Inr stats \<Rightarrow> response_dto stats)"

text \<open>
  \<open>value_error_handler\<close>, the function registered for \<open>ValueError\<close>: the dictionary
  it returns for the exception it is given.
\<close>

record validation_error =
  ve_error :: string
  ve_detail :: string

definition value_error_handler :: "exn \<Rightarrow> validation_error" where
  "value_error_handler exc = \<lparr>ve_error = ''Validation Error'', ve_detail = str_exn exc\<rparr>"


section \<open>The command handler, the query handler and the repository\<close>

text \<open>
  Modelled from the spec: the store behind the repository, whose module is not among
  the sources. It holds the rows in the order they were written, the identity the next
  row gets, the instant the server reads as now, and for each coming interaction
  whether it fails and with what message (a storage failure; none once the list is
  used up).
\<close>

record 'st store =
  rows :: "'st reading list"
  next_id :: int
  clock :: nat
  faults :: "string option list"

text \<open>
  Modelled from the spec: one interaction with the store, missing with the repository;
  it fails with a storage error when the store says so.
\<close>

definition interaction :: "'st store \<Rightarrow> string option \<times> 'st store" where
  "interaction s = (case faults s of [] \<Rightarrow> (None, s) | f # fs \<Rightarrow> (f, s\<lparr>faults := fs\<rparr>))"

text \<open>
  Modelled from the spec: the repository's \<open>save\<close>, not among the sources. It persists a
  new reading, the store assigning identity and timestamp, and returns the identity.
\<close>

definition save :: "int \<Rightarrow> int \<Rightarrow> 'st \<Rightarrow> 'st store \<Rightarrow> (exn + int) \<times> 'st store" where
  "save device p st s =
     (case interaction s of
        (Some m, s1) \<Rightarrow> (Inl (StorageError m), s1)
      | (None, s1) \<Rightarrow>
          (Inr (next_id s1),
           s1\<lparr>rows := rows s1 @ [\<lparr>r_id = next_id s1, r_smart_band_id = device, r_pulse = p,
                                     r_status = st, r_timestamp = clock s1\<rparr>],
               next_id := next_id s1 + 1\<rparr>))"

text \<open>
  Modelled from the spec: the repository's \<open>find_by_id\<close>, not among the sources. It
  returns the reading of that identity, or that there is none.
\<close>

definition find_by_id :: "int \<Rightarrow> 'st store \<Rightarrow> (exn + 'st reading option) \<times> 'st store" where
  "find_by_id i s =
     (case interaction s of
        (Some m, s1) \<Rightarrow> (Inl (StorageError m), s1)
      | (None, s1) \<Rightarrow> (Inr (find (\<lambda>r. r_id r = i) (rows s1)), s1))"

text \<open>
  Modelled from the spec: the command handler's \<open>handle\<close>, not among the sources. The
  pulse of the command is an integer already; the reading is built with the
  classifier, which is a parameter, and persisted.
\<close>

definition handle :: "(int \<Rightarrow> 'st) \<Rightarrow> command \<Rightarrow> 'st store \<Rightarrow> (exn + int) \<times> 'st store" where
  "handle classify cmd s = save (c_smart_band_id cmd) (c_pulse cmd) (classify (c_pulse cmd)) s"

text \<open>
  Modelled from the spec: the query handler's \<open>get_history\<close> over the repository's
  search by device, not among the sources: up to \<open>limit\<close> readings of the device,
  newest first.
\<close>

definition get_history :: "history_query \<Rightarrow> 'st store \<Rightarrow> exn + 'st reading list" where
  "get_history q s =
     (case interaction s of
        (Some m, s1) \<Rightarrow> Inl (StorageError m)
      | (None, s1) \<Rightarrow>
          Inr (take (nat (q_limit q))
                 (rev (sort_key r_timestamp
                    (filter (\<lambda>r. r_smart_band_id r = q_smart_band_id q) (rows s1))))))"

text \<open>The identities of the rows are the ones the store has given out.\<close>

definition store_ok :: "'st store \<Rightarrow> bool" where
  "store_ok s = list_all (\<lambda>r. r_id r < next_id s) (rows s)"


section \<open>Helper facts\<close>

lemma show_nat_500: "show_nat 500 = ''500''"
  by code_simp

lemma find_fresh:
  "list_all (\<lambda>r. r_id r < k) rs \<Longrightarrow> r_id x = k \<Longrightarrow> find (\<lambda>r. r_id r = k) (rs @ [x]) = Some x"
  by (induction rs) auto




lemma interaction_keeps:
  "interaction s = (f, s') \<Longrightarrow> rows s' = rows s \<and> next_id s' = next_id s \<and> clock s' = clock s"
  by (auto simp: interaction_def split: list.splits)

lemma save_Inr:
  assumes "save device p st s = (Inr i, s1)"
  shows "i = next_id s \<and>
    rows s1 = rows s @ [\<lparr>r_id = next_id s, r_smart_band_id = device, r_pulse = p,
                          r_status = st, r_timestamp = clock s\<rparr>]"
proof -
  obtain f0 s0 where i0: "interaction s = (f0, s0)" by (cases "interaction s")
  note k = interaction_keeps [OF i0]
  from assms i0 show ?thesis
    by (auto simp: save_def k split: option.splits)
qed

lemma save_keeps_store_ok:
  "store_ok s \<Longrightarrow> save device p st s = (res, s1) \<Longrightarrow> store_ok s1"
  by (fastforce simp: save_def interaction_def store_ok_def list_all_iff
      split: list.splits option.splits)

lemma find_by_id_Inr:
  assumes "find_by_id i s = (Inr found, s1)"
  shows "found = find (\<lambda>r. r_id r = i) (rows s)"
proof -
  obtain f0 s0 where i0: "interaction s = (f0, s0)" by (cases "interaction s")
  note k = interaction_keeps [OF i0]
  from assms i0 show ?thesis
    by (auto simp: find_by_id_def k split: option.splits)
qed

section \<open>The record endpoint\<close>

text \<open>
  C1. Round trip at the record endpoint. Whatever the handler and the repository are,
  when the pulse converts to the integer \<open>n\<close>, the handler returns an identity and the
  repository finds a reading under it, the response of status 201 carries the
  identity, device, pulse, status and timestamp of the reading found. With the handler
  and the repository of the specification over a store whose identities are below the
  next one, when persisting and fetching succeed, the reading found has the identity
  returned, the device of the request, the pulse \<open>n\<close> and the status \<open>classify n\<close>.
\<close>

theorem record_round_trip:
  "(py_int (pulse req) = Inr n \<and>
    h \<lparr>c_smart_band_id = smartBandId req, c_pulse = n\<rparr> db = (Inr j, db1) \<and>
    f j db1 = (Inr (Some r), db2) \<longrightarrow>
      record_heart_rate h f status_value req db =
        (Inr \<lparr>dto_id = r_id r, dto_smart_band_id = r_smart_band_id r,
              dto_pulse = r_pulse r, dto_status = r_status r,
              dto_timestamp = r_timestamp r,
              dto_message = ''Heart rate recorded successfully. Status: '' @
                status_value (r_status r)\<rparr>, db2)
      \<and> status_code (fst (record_heart_rate h f status_value req db)) = 201)
   \<and> (store_ok s \<and> py_int (pulse req) = Inr n \<and>
       handle classify \<lparr>c_smart_band_id = smartBandId req, c_pulse = n\<rparr> s = (Inr i, s1) \<and>
       find_by_id i s1 = (Inr found, s2) \<longrightarrow>
         (\<exists>x. found = Some x \<and> r_id x = i \<and> r_smart_band_id x = smartBandId req \<and>
              r_pulse x = n \<and> r_status x = classify n))"
proof (intro conjI impI)
  assume a: "py_int (pulse req) = Inr n \<and>
    h \<lparr>c_smart_band_id = smartBandId req, c_pulse = n\<rparr> db = (Inr j, db1) \<and>
    f j db1 = (Inr (Some r), db2)"
  then show "record_heart_rate h f status_value req db =
        (Inr \<lparr>dto_id = r_id r, dto_smart_band_id = r_smart_band_id r,
              dto_pulse = r_pulse r, dto_status = r_status r,
              dto_timestamp = r_timestamp r,
              dto_message = ''Heart rate recorded successfully. Status: '' @
                status_value (r_status r)\<rparr>, db2)"
    by (simp add: record_heart_rate_def)
  from a show "status_code (fst (record_heart_rate h f status_value req db)) = 201"
    by (simp add: record_heart_rate_def)
next
  assume a: "store_ok s \<and> py_int (pulse req) = Inr n \<and>
       handle classify \<lparr>c_smart_band_id = smartBandId req, c_pulse = n\<rparr> s = (Inr i, s1) \<and>
       find_by_id i s1 = (Inr found, s2)"
  let ?x = "\<lparr>r_id = next_id s, r_smart_band_id = smartBandId req, r_pulse = n,
             r_status = classify n, r_timestamp = clock s\<rparr>"
  from a have sv: "save (smartBandId req) n (classify n) s = (Inr i, s1)"
    by (simp add: handle_def)
  have i: "i = next_id s" and rows1: "rows s1 = rows s @ [?x]"
    using save_Inr [OF sv] by simp_all
  from a have "find_by_id i s1 = (Inr found, s2)" by simp
  then have found: "found = find (\<lambda>r. r_id r = i) (rows s1)"
    by (rule find_by_id_Inr)
  have "list_all (\<lambda>r. r_id r < i) (rows s)"
    using a by (simp add: store_ok_def i)
  then have "find (\<lambda>r. r_id r = i) (rows s @ [?x]) = Some ?x"
    by (rule find_fresh) (simp add: i)
  then have "found = Some ?x"
    by (simp add: found rows1)
  then show "\<exists>x. found = Some x \<and> r_id x = i \<and> r_smart_band_id x = smartBandId req \<and>
              r_pulse x = n \<and> r_status x = classify n"
    by (simp add: i)
qed

text \<open>The round trip on the scenario of the specification: pulse 72 of device 1, recorded in an empty store.\<close>

theorem record_round_trip_witness:
  "store_ok (\<lparr>rows = [], next_id = 1, clock = 1000, faults = []\<rparr> :: string store)
   \<and> py_int (pulse \<lparr>smartBandId = 1, pulse = PStr ''72''\<rparr>) = Inr 72
   \<and> handle (\<lambda>p. if p < 60 then ''LOW'' else ''NORMAL'')
        \<lparr>c_smart_band_id = smartBandId \<lparr>smartBandId = 1, pulse = PStr ''72''\<rparr>, c_pulse = 72\<rparr>
        \<lparr>rows = [], next_id = 1, clock = 1000, faults = []\<rparr> =
       (Inr 1, \<lparr>rows = [\<lparr>r_id = 1, r_smart_band_id = 1, r_pulse = 72, r_status = ''NORMAL'',
                          r_timestamp = 1000\<rparr>], next_id = 2, clock = 1000, faults = []\<rparr>)
   \<and> find_by_id 1 \<lparr>rows = [\<lparr>r_id = 1, r_smart_band_id = 1, r_pulse = 72, r_status = ''NORMAL'',
                          r_timestamp = 1000\<rparr>], next_id = 2, clock = 1000, faults = []\<rparr> =
       (Inr (Some \<lparr>r_id = 1, r_smart_band_id = 1, r_pulse = 72, r_status = ''NORMAL'',
                   r_timestamp = 1000\<rparr>),
        \<lparr>rows = [\<lparr>r_id = 1, r_smart_band_id = 1, r_pulse = 72, r_status = ''NORMAL'',
                          r_timestamp = 1000\<rparr>], next_id = 2, clock = 1000, faults = []\<rparr>)
   \<and> record_heart_rate (handle (\<lambda>p. if p < 60 then ''LOW'' else ''NORMAL'')) find_by_id (\<lambda>v. v)
        \<lparr>smartBandId = 1, pulse = PStr ''72''\<rparr>
        \<lparr>rows = [], next_id = 1, clock = 1000, faults = []\<rparr> =
       (Inr \<lparr>dto_id = 1, dto_smart_band_id = 1, dto_pulse = 72, dto_status = ''NORMAL'',
             dto_timestamp = 1000,
             dto_message = ''Heart rate recorded successfully. Status: NORMAL''\<rparr>,
        \<lparr>rows = [\<lparr>r_id = 1, r_smart_band_id = 1, r_pulse = 72, r_status = ''NORMAL'',
                          r_timestamp = 1000\<rparr>], next_id = 2, clock = 1000, faults = []\<rparr>)"
proof -
  let ?s0 = "\<lparr>rows = [], next_id = 1, clock = 1000, faults = []\<rparr> :: string store"
  let ?x = "\<lparr>r_id = 1, r_smart_band_id = 1, r_pulse = 72, r_status = ''NORMAL'',
             r_timestamp = 1000\<rparr>"
  let ?s1 = "\<lparr>rows = [?x], next_id = 2, clock = 1000, faults = []\<rparr>"
  let ?req = "\<lparr>smartBandId = 1, pulse = PStr ''72''\<rparr>"
  let ?cl = "\<lambda>p::int. if p < 60 then ''LOW'' else ''NORMAL''"
  have h0: "store_ok ?s0" by (simp add: store_ok_def)
  have h1: "py_int (pulse ?req) = Inr 72" by code_simp
  have h2: "handle ?cl \<lparr>c_smart_band_id = smartBandId ?req, c_pulse = 72\<rparr> ?s0 = (Inr 1, ?s1)"
    by (simp add: handle_def save_def interaction_def)
  have h3: "find_by_id 1 ?s1 = (Inr (Some ?x), ?s1)"
    by (simp add: find_by_id_def interaction_def)
  from record_round_trip [where req = ?req and n = 72 and h = "handle ?cl" and db = ?s0
      and j = 1 and ?db1.0 = ?s1 and f = find_by_id and r = ?x and ?db2.0 = ?s1
      and status_value = "\<lambda>v. v" and s = ?s0 and classify = ?cl and i = 1 and ?s1.0 = ?s1
      and found = "Some ?x" and ?s2.0 = ?s1] h0 h1 h2 h3
  show ?thesis by simp
qed




text \<open>
  C5. When the handler has returned an identity and the repository finds nothing under
  it, the record endpoint raises the HTTP error 500: the exception raised for the
  missing reading is caught by the second \<open>except\<close> clause and raised again with its
  text in the detail.
\<close>

theorem vanished_reading_is_internal_error:
  assumes "py_int (pulse req) = Inr n"
    and "h \<lparr>c_smart_band_id = smartBandId req, c_pulse = n\<rparr> db = (Inr i, db1)"
    and "f i db1 = (Inr None, db2)"
  shows "record_heart_rate h f sv req db =
           (Inl (HTTPException 500
              ''Internal server error: 500: Failed to retrieve created reading''), db2)
         \<and> status_code (fst (record_heart_rate h f sv req db)) = 500"
  using assms by (simp add: record_heart_rate_def show_nat_500)

text \<open>A repository that finds nothing under the identity the handler returned.\<close>

theorem vanished_reading_witness:
  "py_int (pulse \<lparr>smartBandId = 1, pulse = PInt 72\<rparr>) = Inr 72
   \<and> (\<lambda>c db. (Inr 1, db)) \<lparr>c_smart_band_id = smartBandId \<lparr>smartBandId = 1, pulse = PInt 72\<rparr>,
         c_pulse = 72\<rparr> () = (Inr 1 :: exn + int, ())
   \<and> (\<lambda>i db. (Inr None, db)) (1::int) () = (Inr None :: exn + string reading option, ())
   \<and> record_heart_rate (\<lambda>c db. (Inr 1, db)) (\<lambda>i db. (Inr None, db)) (\<lambda>v. v)
        \<lparr>smartBandId = 1, pulse = PInt 72\<rparr> () =
       (Inl (HTTPException 500 ''Internal server error: 500: Failed to retrieve created reading'')
          :: exn + string record_response, ())
   \<and> status_code (fst (record_heart_rate (\<lambda>c db. (Inr 1, db)) (\<lambda>i db. (Inr None, db)) (\<lambda>v. v)
        \<lparr>smartBandId = 1, pulse = PInt 72\<rparr> ()
          :: (exn + string record_response) \<times> unit)) = 500"
proof -
  let ?good = "\<lparr>smartBandId = 1, pulse = PInt 72\<rparr>"
  let ?ok = "\<lambda>(c::command) (db::unit). (Inr 1 :: exn + int, db)"
  let ?none = "\<lambda>(i::int) (db::unit). (Inr None :: exn + string reading option, db)"
  have h1: "py_int (pulse ?good) = Inr 72" by simp
  have h2: "?ok \<lparr>c_smart_band_id = smartBandId ?good, c_pulse = 72\<rparr> () = (Inr 1, ())" by simp
  have h3: "?none 1 () = (Inr None, ())" by simp
  from vanished_reading_is_internal_error [where h = ?ok and f = ?none and sv = "\<lambda>v. v",
      OF h1 h2 h3] h1
  show ?thesis by simp
qed

section \<open>The history endpoint\<close>

text \<open>
  C6. A history request without a limit runs the handler's query with the limit 10: the
  endpoint's answer is the one built from what the handler returns for that query.
\<close>

theorem history_default_limit:
  "get_heart_rate_history gh sid None db =
     (case gh \<lparr>q_smart_band_id = sid, q_limit = 10\<rparr> db of
        Inl e \<Rightarrow> Inl e
      | Inr readings \<Rightarrow> Inr \<lparr>hr_smart_band_id = sid, hr_readings = map history_item readings,
                             hr_total = length readings\<rparr>)"
  by (simp add: get_heart_rate_history_def)

text \<open>
  C7. In every history response the total is the number of readings of that response,
  which are the readings the handler returned for the query, one item each. When the
  handler returns no reading, the response has no readings and the total 0, and is not
  an error.
\<close>

theorem history_total_is_length:
  "(get_heart_rate_history gh sid lim db = Inr resp \<longrightarrow>
      hr_total resp = length (hr_readings resp) \<and>
      (\<exists>rs. gh \<lparr>q_smart_band_id = sid, q_limit = (case lim of None \<Rightarrow> 10 | Some l \<Rightarrow> l)\<rparr> db = Inr rs
          \<and> hr_readings resp = map history_item rs))
   \<and> (gh \<lparr>q_smart_band_id = sid, q_limit = (case lim of None \<Rightarrow> 10 | Some l \<Rightarrow> l)\<rparr> db = Inr [] \<longrightarrow>
        get_heart_rate_history gh sid lim db =
          Inr \<lparr>hr_smart_band_id = sid, hr_readings = [], hr_total = 0\<rparr>)"
  by (auto simp: get_heart_rate_history_def Let_def split: sum.splits)

text \<open>A store with two readings of device 1: the history of device 999 is empty with total 0, and the history of device 1 with limit 1 has total 1, not 2.\<close>

theorem history_total_is_length_witness:
  "get_history \<lparr>q_smart_band_id = 999, q_limit = 10\<rparr>
     \<lparr>rows = [\<lparr>r_id = 1, r_smart_band_id = 1, r_pulse = 72, r_status = ''NORMAL'', r_timestamp = 1000\<rparr>,
              \<lparr>r_id = 2, r_smart_band_id = 1, r_pulse = 75, r_status = ''NORMAL'', r_timestamp = 1060\<rparr>],
      next_id = 3, clock = 2000, faults = []\<rparr> = Inr []
   \<and> get_heart_rate_history get_history 999 None
     \<lparr>rows = [\<lparr>r_id = 1, r_smart_band_id = 1, r_pulse = 72, r_status = ''NORMAL'', r_timestamp = 1000\<rparr>,
              \<lparr>r_id = 2, r_smart_band_id = 1, r_pulse = 75, r_status = ''NORMAL'', r_timestamp = 1060\<rparr>],
      next_id = 3, clock = 2000, faults = []\<rparr> =
       Inr \<lparr>hr_smart_band_id = 999, hr_readings = [], hr_total = 0\<rparr>
   \<and> get_heart_rate_history get_history 1 (Some 1)
     \<lparr>rows = [\<lparr>r_id = 1, r_smart_band_id = 1, r_pulse = 72, r_status = ''NORMAL'', r_timestamp = 1000\<rparr>,
              \<lparr>r_id = 2, r_smart_band_id = 1, r_pulse = 75, r_status = ''NORMAL'', r_timestamp = 1060\<rparr>],
      next_id = 3, clock = 2000, faults = []\<rparr> =
       Inr \<lparr>hr_smart_band_id = 1,
            hr_readings = [\<lparr>i_id = 2, i_pulse = 75, i_status = ''NORMAL'', i_timestamp = 1060\<rparr>],
            hr_total = 1\<rparr>
   \<and> hr_total \<lparr>hr_smart_band_id = 1,
            hr_readings = [\<lparr>i_id = 2, i_pulse = 75, i_status = ''NORMAL'', i_timestamp = 1060\<rparr>],
            hr_total = 1\<rparr> =
       length (hr_readings \<lparr>hr_smart_band_id = 1,
            hr_readings = [\<lparr>i_id = 2, i_pulse = 75, i_status = ''NORMAL'', i_timestamp = 1060\<rparr>],
            hr_total = 1\<rparr>)"
proof -
  let ?s = "\<lparr>rows = [\<lparr>r_id = 1, r_smart_band_id = 1, r_pulse = 72, r_status = ''NORMAL'', r_timestamp = 1000\<rparr>,
              \<lparr>r_id = 2, r_smart_band_id = 1, r_pulse = 75, r_status = ''NORMAL'', r_timestamp = 1060\<rparr>],
      next_id = 3, clock = 2000, faults = []\<rparr>"
  let ?resp = "\<lparr>hr_smart_band_id = 1,
            hr_readings = [\<lparr>i_id = 2, i_pulse = 75, i_status = ''NORMAL'', i_timestamp = 1060\<rparr>],
            hr_total = 1\<rparr>"
  have h1: "get_history \<lparr>q_smart_band_id = 999, q_limit = 10\<rparr> ?s = Inr []"
    by (simp add: get_history_def interaction_def)
  have h2: "get_heart_rate_history get_history 1 (Some 1) ?s = Inr ?resp"
    by (simp add: get_heart_rate_history_def get_history_def interaction_def history_item_def)
  note a = history_total_is_length [where gh = get_history and sid = 999 and lim = None
      and db = ?s]
  note b = history_total_is_length [where gh = get_history and sid = 1 and lim = "Some 1"
      and db = ?s and resp = ?resp]
  from a b h1 h2 show ?thesis by simp
qed


section \<open>Sessions\<close>

text \<open>
  C3, as stated, fails on the code: \<open>get_db_session\<close> never commits. On a pool that
  has made no session yet, the generator entered and then resumed after work that
  succeeded makes two calls on its session, both \<open>close\<close>, and no \<open>commit\<close>.
\<close>

theorem get_db_session_no_commit_counterexample:
  "calls (snd (get_db_session_exit None Next 0
       (snd (get_db_session_enter \<lparr>next_session = 0, active = [], calls = []\<rparr>)))) =
     [(0, Close), (0, Close)]
   \<and> (0, Commit) \<notin> set (calls (snd (get_db_session_exit None Next 0
       (snd (get_db_session_enter \<lparr>next_session = 0, active = [], calls = []\<rparr>)))))"
  by (simp add: get_db_session_enter_def async_session_maker_def leave_session_def
      session_close_def session_call_def)

text \<open>
  C3, amended. Every run of \<open>get_db_session\<close> makes a session of its own, and the next
  run gets another one. From its \<open>yield\<close> on, the generator calls \<open>rollback\<close> exactly
  when an exception of class \<open>Exception\<close> is thrown into it, before that exception, or
  the one \<open>rollback\<close> raises, leaves it; on every way out (the work done, an exception
  thrown in, a failing rollback, the generator closed) it then closes the session,
  which is no longer among the active ones; it makes no \<open>commit\<close> call on any of them.
\<close>

theorem get_db_session_discipline:
  assumes "get_db_session_enter p = (sid, p1)"
    and "get_db_session_exit rollback_fault r sid p1 = (out, p2)"
  shows "sid = next_session p \<and> next_session p2 = Suc sid
     \<and> calls p2 = calls p @
          (case r of Throw e \<Rightarrow> if is_Exception e then [(sid, Rollback)] else [] | _ \<Rightarrow> [])
          @ [(sid, Close), (sid, Close)]
     \<and> active p2 = removeAll sid (active p)
     \<and> sid \<notin> set (active p2)
     \<and> out = (case r of
                Throw e \<Rightarrow> (if is_Exception e
                   then (case rollback_fault of Some e2 \<Rightarrow> Some e2 | None \<Rightarrow> Some e)
                   else Some e)
              | _ \<Rightarrow> None)"
  using assms
  by (cases r)
    (auto simp: get_db_session_enter_def async_session_maker_def leave_session_def
      session_close_def session_call_def split: if_splits option.splits)

text \<open>A storage error thrown into the generator of the fourth session of a pool.\<close>

theorem get_db_session_discipline_witness:
  "get_db_session_enter \<lparr>next_session = 3, active = [2], calls = [(2, Execute ''SELECT 1'')]\<rparr> =
     (3, \<lparr>next_session = 4, active = [2, 3], calls = [(2, Execute ''SELECT 1'')]\<rparr>)
   \<and> get_db_session_exit None (Throw (StorageError ''lost'')) 3
        \<lparr>next_session = 4, active = [2, 3], calls = [(2, Execute ''SELECT 1'')]\<rparr> =
       (Some (StorageError ''lost''),
        \<lparr>next_session = 4, active = [2],
          calls = [(2, Execute ''SELECT 1''), (3, Rollback), (3, Close), (3, Close)]\<rparr>)"
proof -
  let ?p = "\<lparr>next_session = 3, active = [2], calls = [(2, Execute ''SELECT 1'')]\<rparr>"
  let ?p1 = "\<lparr>next_session = 4, active = [2, 3], calls = [(2, Execute ''SELECT 1'')]\<rparr>"
  obtain out p2 where x: "get_db_session_exit None (Throw (StorageError ''lost'')) 3 ?p1 = (out, p2)"
    by (cases "get_db_session_exit None (Throw (StorageError ''lost'')) 3 ?p1")
  have e: "get_db_session_enter ?p = (3, ?p1)"
    by (simp add: get_db_session_enter_def async_session_maker_def)
  have n: "next_session p2 = 4"
    using x by (auto simp: leave_session_def session_close_def session_call_def)
  from get_db_session_discipline [OF e x] have
    "calls p2 = [(2, Execute ''SELECT 1''), (3, Rollback), (3, Close), (3, Close)]"
    "active p2 = [2]" "out = Some (StorageError ''lost'')"
    by simp_all
  with n have "p2 = \<lparr>next_session = 4, active = [2],
          calls = [(2, Execute ''SELECT 1''), (3, Rollback), (3, Close), (3, Close)]\<rparr>"
    by simp
  with x e \<open>out = Some (StorageError ''lost'')\<close> show ?thesis by simp
qed

section \<open>Configuration\<close>

text \<open>
  C4, as stated, fails on the code: the sizes are not configurable. A direct connection
  string that asks for a pool of 20 with a lifetime of 60 seconds gets the pool of
  every direct connection: 5, overflow 10, lifetime 1800 seconds.
\<close>

theorem pool_sizes_fixed_counterexample:
  "database_configuration (\<lambda>url. None)
     (Some ''postgresql+psycopg://u:p@db.example:5432/postgres?pool_size=20&pool_recycle=60'') =
     Inr \<lparr>engine_url = ''postgresql+psycopg://u:p@db.example:5432/postgres?pool_size=20&pool_recycle=60'',
          engine_echo = False,
          engine_pool = \<lparr>pool_size = 5, max_overflow = 10, pool_recycle = 1800,
            pool_timeout = 30, pool_pre_ping = True\<rparr>\<rparr>"
proof -
  have "\<not> is_pooler ''postgresql+psycopg://u:p@db.example:5432/postgres?pool_size=20&pool_recycle=60''"
    by code_simp
  then show ?thesis
    by (simp add: database_configuration_def create_async_engine_def pool_config_def
      startswith_def)
qed

text \<open>
  C4, amended. The pool of the engine is chosen by the topology read from the
  connection string, and by nothing else: of two connection strings the module
  accepts, the one through the pooler (it contains \<open>:6543/\<close>) gets the pool 3, overflow
  5 and lifetime 300 seconds, the direct one gets 5, 10 and 1800 seconds. So the
  pooled connection has the smaller pool and the shorter connection lifetime; the two
  sizings are constants of the module.
\<close>

theorem pool_chosen_by_url:
  assumes "database_configuration engine_error (Some u1) = Inr e1"
    and "database_configuration engine_error (Some u2) = Inr e2"
    and "is_pooler u1" and "\<not> is_pooler u2"
  shows "engine_pool e1 = \<lparr>pool_size = 3, max_overflow = 5, pool_recycle = 300,
            pool_timeout = 30, pool_pre_ping = True\<rparr>
     \<and> engine_pool e2 = \<lparr>pool_size = 5, max_overflow = 10, pool_recycle = 1800,
            pool_timeout = 30, pool_pre_ping = True\<rparr>
     \<and> pool_size (engine_pool e1) < pool_size (engine_pool e2)
     \<and> max_overflow (engine_pool e1) < max_overflow (engine_pool e2)
     \<and> pool_recycle (engine_pool e1) < pool_recycle (engine_pool e2)"
  using assms
  by (auto simp: database_configuration_def create_async_engine_def pool_config_def
      split: if_splits option.splits)

text \<open>A connection string through the pooler and a direct one.\<close>

theorem pool_chosen_by_url_witness:
  "database_configuration (\<lambda>url. None)
     (Some ''postgresql+psycopg://u:p@db.example:6543/postgres'') =
     Inr \<lparr>engine_url = ''postgresql+psycopg://u:p@db.example:6543/postgres'',
          engine_echo = False,
          engine_pool = \<lparr>pool_size = 3, max_overflow = 5, pool_recycle = 300,
            pool_timeout = 30, pool_pre_ping = True\<rparr>\<rparr>
   \<and> database_configuration (\<lambda>url. None)
     (Some ''postgresql+psycopg://u:p@db.example:5432/postgres'') =
     Inr \<lparr>engine_url = ''postgresql+psycopg://u:p@db.example:5432/postgres'',
          engine_echo = False,
          engine_pool = \<lparr>pool_size = 5, max_overflow = 10, pool_recycle = 1800,
            pool_timeout = 30, pool_pre_ping = True\<rparr>\<rparr>
   \<and> is_pooler ''postgresql+psycopg://u:p@db.example:6543/postgres''
   \<and> \<not> is_pooler ''postgresql+psycopg://u:p@db.example:5432/postgres''
   \<and> pool_size (pool_config ''postgresql+psycopg://u:p@db.example:6543/postgres'')
       < pool_size (pool_config ''postgresql+psycopg://u:p@db.example:5432/postgres'')
   \<and> pool_recycle (pool_config ''postgresql+psycopg://u:p@db.example:6543/postgres'')
       < pool_recycle (pool_config ''postgresql+psycopg://u:p@db.example:5432/postgres'')"
proof -
  let ?u1 = "''postgresql+psycopg://u:p@db.example:6543/postgres''"
  let ?u2 = "''postgresql+psycopg://u:p@db.example:5432/postgres''"
  have p1: "is_pooler ?u1" by code_simp
  have p2: "\<not> is_pooler ?u2" by code_simp
  have c1: "database_configuration (\<lambda>url. None) (Some ?u1) =
     Inr \<lparr>engine_url = ?u1, engine_echo = False,
          engine_pool = \<lparr>pool_size = 3, max_overflow = 5, pool_recycle = 300,
            pool_timeout = 30, pool_pre_ping = True\<rparr>\<rparr>"
    using p1 by (simp add: database_configuration_def create_async_engine_def pool_config_def
      startswith_def)
  have c2: "database_configuration (\<lambda>url. None) (Some ?u2) =
     Inr \<lparr>engine_url = ?u2, engine_echo = False,
          engine_pool = \<lparr>pool_size = 5, max_overflow = 10, pool_recycle = 1800,
            pool_timeout = 30, pool_pre_ping = True\<rparr>\<rparr>"
    using p2 by (simp add: database_configuration_def create_async_engine_def pool_config_def
      startswith_def)
  from pool_chosen_by_url [OF c1 c2 p1 p2] c1 c2 p1 p2 show ?thesis
    by (simp add: pool_config_def)
qed

text \<open>
  C8. Start-up fails fast: when \<open>DATABASE_URL\<close> is not set, or does not start with
  the scheme of the asynchronous driver, importing the configuration module raises a
  \<open>ValueError\<close> and \<open>main.py\<close> ends with it, before the application is made. An
  application that exists was configured with a connection string that is set, has
  that scheme, and was accepted when the engine was made.
\<close>

theorem startup_fail_fast:
  "(env = None \<or> (\<exists>u. env = Some u \<and> \<not> startswith u ''postgresql+psycopg://'')
      \<longrightarrow> (\<exists>m. main_module engine_error env = Inl (ValueError m)))
   \<and> (\<forall>app. main_module engine_error env = Inr app \<longrightarrow>
         env = Some (engine_url (app_engine app)) \<and>
         startswith (engine_url (app_engine app)) ''postgresql+psycopg://'' \<and>
         engine_error (engine_url (app_engine app)) = None)"
  by (auto simp: main_module_def database_configuration_def create_async_engine_def
      split: option.splits if_splits)

text \<open>No connection string, one of the synchronous driver, and one of the asynchronous driver.\<close>

theorem startup_fail_fast_witness:
  "main_module (\<lambda>url. None) None = Inl (ValueError missing_url_message)
   \<and> \<not> startswith ''postgresql://u:p@db.example:5432/postgres'' ''postgresql+psycopg://''
   \<and> main_module (\<lambda>url. None) (Some ''postgresql://u:p@db.example:5432/postgres'') =
       Inl (ValueError (wrong_driver_message ''postgresql://u:p@db.example:5432/postgres''))
   \<and> main_module (\<lambda>url. None) (Some ''postgresql+psycopg://u:p@db.example:5432/postgres'') =
       Inr \<lparr>app_title = ''Smart Band Edge Service'',
            app_engine = \<lparr>engine_url = ''postgresql+psycopg://u:p@db.example:5432/postgres'',
              engine_echo = False,
              engine_pool = pool_config ''postgresql+psycopg://u:p@db.example:5432/postgres''\<rparr>\<rparr>
   \<and> startswith ''postgresql+psycopg://u:p@db.example:5432/postgres'' ''postgresql+psycopg://''"
proof -
  let ?bad = "''postgresql://u:p@db.example:5432/postgres''"
  let ?good = "''postgresql+psycopg://u:p@db.example:5432/postgres''"
  let ?app = "\<lparr>app_title = ''Smart Band Edge Service'',
            app_engine = \<lparr>engine_url = ?good, engine_echo = False,
              engine_pool = pool_config ?good\<rparr>\<rparr>"
  have h1: "\<not> startswith ?bad ''postgresql+psycopg://''"
    by (simp add: startswith_def)
  have h2: "main_module (\<lambda>url. None) (Some ?good) = Inr ?app"
    by (simp add: main_module_def database_configuration_def create_async_engine_def
        startswith_def)
  note a = startup_fail_fast [where env = None and engine_error = "\<lambda>url. None"]
  note b = startup_fail_fast [where env = "Some ?bad" and engine_error = "\<lambda>url. None"]
  from startup_fail_fast [where env = "Some ?good" and engine_error = "\<lambda>url. None"] h2
  have c: "startswith (engine_url (app_engine ?app)) ''postgresql+psycopg://''"
    by blast
  from a have a': "main_module (\<lambda>url. None) None = Inl (ValueError missing_url_message)"
    by (simp add: main_module_def database_configuration_def)
  from b h1 have b': "main_module (\<lambda>url. None) (Some ?bad) =
      Inl (ValueError (wrong_driver_message ?bad))"
    by (simp add: main_module_def database_configuration_def)
  from a' b' c h1 h2 show ?thesis by simp
qed

section \<open>The keep-alive endpoint\<close>

text \<open>
  C9, as stated, fails on the code: the keep-alive probe is not the only place where an
  error ends without being raised. When setting the time zone fails on a new
  connection, \<open>set_timezone\<close> logs a warning and returns, and the connection is used.
\<close>

theorem set_timezone_swallows_counterexample:
  "set_timezone None (Some (StorageError ''connection lost'')) None
     \<lparr>cursors_open = 0, executed = [], warnings = []\<rparr> =
     (None, \<lparr>cursors_open = 1, executed = [],
              warnings = [''Could not set timezone: connection lost'']\<rparr>)"
  by (simp add: set_timezone_def could_not_set_timezone_def)

text \<open>
  C9, amended. An exception of the database probe of a keep-alive GET becomes a
  response, not an error: its status is \<open>error\<close> and its message is the text of the
  exception. The record endpoint raises for a failing conversion, handler or
  repository, the history and statistics endpoints raise what their handler raises,
  and an exception thrown into \<open>get_db_session\<close> leaves it as an exception. Two more
  functions do not raise what they get: the connection hook \<open>set_timezone\<close> catches
  every exception of class \<open>Exception\<close> of its three calls, logs it as a warning and
  returns, and \<open>value_error_handler\<close> returns a dictionary with the text of the
  exception it is given.
\<close>

theorem errors_answered_or_raised:
  "(is_Exception e \<longrightarrow>
      fst (keepalive GET now (Inl e) p) =
        Inr \<lparr>p_status = ''error'', p_timestamp = Some now, p_database = Some ''error'',
             p_message = Some (str_exn e)\<rparr>)
   \<and> (py_int (pulse req) = Inl e \<longrightarrow>
        fst (record_heart_rate h f sv req db) = Inl (except_clauses e))
   \<and> (py_int (pulse req) = Inr n \<and>
        h \<lparr>c_smart_band_id = smartBandId req, c_pulse = n\<rparr> db = (Inl e, db1) \<longrightarrow>
        fst (record_heart_rate h f sv req db) = Inl (except_clauses e))
   \<and> (py_int (pulse req) = Inr n \<and>
        h \<lparr>c_smart_band_id = smartBandId req, c_pulse = n\<rparr> db = (Inr i, db1) \<and>
        f i db1 = (Inl e, db2) \<longrightarrow>
        fst (record_heart_rate h f sv req db) = Inl (except_clauses e))
   \<and> (gh \<lparr>q_smart_band_id = sid, q_limit = (case lim of None \<Rightarrow> 10 | Some l \<Rightarrow> l)\<rparr> db' = Inl e \<longrightarrow>
        get_heart_rate_history gh sid lim db' = Inl e)
   \<and> (gs sid db'' = Inl e \<longrightarrow> get_heart_rate_statistics gs mk sid db'' = Inl e)
   \<and> (gs sid db'' = Inr stats \<and> mk stats = Inl e \<longrightarrow>
        get_heart_rate_statistics gs mk sid db'' = Inl e)
   \<and> (\<exists>e'. fst (get_db_session_exit rollback_fault (Throw e) session p) = Some e')
   \<and> (is_Exception e \<longrightarrow>
        set_timezone (Some e) execute_fault close_fault c =
          (None, c\<lparr>warnings := warnings c @ [''Could not set timezone: '' @ str_exn e]\<rparr>) \<and>
        set_timezone None (Some e) close_fault c =
          (None, c\<lparr>cursors_open := Suc (cursors_open c),
                   warnings := warnings c @ [''Could not set timezone: '' @ str_exn e]\<rparr>) \<and>
        set_timezone None None (Some e) c =
          (None, c\<lparr>cursors_open := Suc (cursors_open c),
                   executed := executed c @ [set_time_zone_statement],
                   warnings := warnings c @ [''Could not set timezone: '' @ str_exn e]\<rparr>))
   \<and> value_error_handler e = \<lparr>ve_error = ''Validation Error'', ve_detail = str_exn e\<rparr>"
  by (auto simp: keepalive_def record_heart_rate_def get_heart_rate_history_def
      get_heart_rate_statistics_def get_db_session_enter_def async_session_maker_def
      set_timezone_def could_not_set_timezone_def value_error_handler_def Let_def
      split: prod.splits option.splits)

text \<open>A storage error at each of the places where an operation can fail.\<close>

theorem errors_answered_or_raised_witness:
  "is_Exception (StorageError ''connection refused'')
   \<and> fst (keepalive GET ''2026-01-01T00:00:00+00:00'' (Inl (StorageError ''connection refused''))
        \<lparr>next_session = 0, active = [], calls = []\<rparr>) =
       Inr \<lparr>p_status = ''error'', p_timestamp = Some ''2026-01-01T00:00:00+00:00'',
            p_database = Some ''error'', p_message = Some ''connection refused''\<rparr>
   \<and> (\<lambda>q db. Inl (StorageError ''connection refused''))
        \<lparr>q_smart_band_id = 1, q_limit = 10\<rparr> () =
       (Inl (StorageError ''connection refused'') :: exn + string reading list)
   \<and> get_heart_rate_history (\<lambda>q db. Inl (StorageError ''connection refused'')) 1 None () =
       (Inl (StorageError ''connection refused'') :: exn + string history_response)
   \<and> get_heart_rate_statistics (\<lambda>i db. Inl (StorageError ''connection refused'')) (\<lambda>s. Inr s) 1 () =
       (Inl (StorageError ''connection refused'') :: exn + nat)
   \<and> get_heart_rate_statistics (\<lambda>i db. Inr (0::nat)) (\<lambda>s. Inl (StorageError ''connection refused'')) 1 () =
       (Inl (StorageError ''connection refused'') :: exn + nat)
   \<and> py_int (pulse \<lparr>smartBandId = 1, pulse = PInt 72\<rparr>) = Inr 72
   \<and> fst (record_heart_rate (\<lambda>c db. (Inl (StorageError ''connection refused''), db))
        (\<lambda>i db. (Inr None, db)) (\<lambda>v. v) \<lparr>smartBandId = 1, pulse = PInt 72\<rparr> ()) =
       (Inl (HTTPException 500 ''Internal server error: connection refused'')
          :: exn + string record_response)
   \<and> fst (record_heart_rate (\<lambda>c db. (Inr 1, db))
        (\<lambda>i db. (Inl (StorageError ''connection refused''), db)) (\<lambda>v. v)
        \<lparr>smartBandId = 1, pulse = PInt 72\<rparr> ()) =
       (Inl (HTTPException 500 ''Internal server error: connection refused'')
          :: exn + string record_response)
   \<and> fst (get_db_session_exit None (Throw (StorageError ''connection refused'')) 0
        \<lparr>next_session = 1, active = [0], calls = []\<rparr>) = Some (StorageError ''connection refused'')
   \<and> set_timezone None (Some (StorageError ''connection refused'')) None
        \<lparr>cursors_open = 0, executed = [], warnings = []\<rparr> =
       (None, \<lparr>cursors_open = 1, executed = [],
                warnings = [''Could not set timezone: connection refused'']\<rparr>)
   \<and> value_error_handler (StorageError ''connection refused'') =
       \<lparr>ve_error = ''Validation Error'', ve_detail = ''connection refused''\<rparr>"
proof -
  let ?e = "StorageError ''connection refused''"
  let ?good = "\<lparr>smartBandId = 1, pulse = PInt 72\<rparr>"
  let ?ok = "\<lambda>(c::command) (db::unit). (Inr 1 :: exn + int, db)"
  let ?none = "\<lambda>(i::int) (db::unit). (Inr None :: exn + string reading option, db)"
  have h2: "py_int (pulse ?good) = Inr 72" by simp
  note a = errors_answered_or_raised [where e = ?e and now = "''2026-01-01T00:00:00+00:00''"
      and p = "\<lparr>next_session = 0, active = [], calls = []\<rparr>"
      and req = ?good and n = 72
      and h = "\<lambda>(c::command) (db::unit). (Inl ?e :: exn + int, db)"
      and f = ?none and sv = "\<lambda>v. v" and db = "()" and ?db1.0 = "()"
      and gh = "\<lambda>(q::history_query) (db::unit). (Inl ?e :: exn + string reading list)"
      and sid = 1 and lim = None and db' = "()"
      and gs = "\<lambda>(i::int) (db::unit). (Inl ?e :: exn + nat)" and db'' = "()"
      and mk = "\<lambda>s::nat. (Inr s :: exn + nat)" and rollback_fault = None and session = 0
      and execute_fault = None and close_fault = None
      and c = "\<lparr>cursors_open = 0, executed = [], warnings = []\<rparr>"]
  note b = errors_answered_or_raised [where e = ?e
      and now = "''2026-01-01T00:00:00+00:00''"
      and p = "\<lparr>next_session = 1, active = [0], calls = []\<rparr>"
      and rollback_fault = None and session = 0
      and gh = "\<lambda>(q::history_query) (db::unit). (Inl ?e :: exn + string reading list)"
      and lim = None and db' = "()"
      and req = ?good and n = 72 and h = ?ok
      and f = "\<lambda>(i::int) (db::unit). (Inl ?e :: exn + string reading option, db)"
      and sv = "\<lambda>v. v" and db = "()" and ?db1.0 = "()" and i = 1 and ?db2.0 = "()"
      and gs = "\<lambda>(i::int) (db::unit). (Inr 0 :: exn + nat)" and db'' = "()" and sid = 1
      and stats = 0 and mk = "\<lambda>s::nat. (Inl ?e :: exn + nat)"
      and execute_fault = None and close_fault = None
      and c = "\<lparr>cursors_open = 0, executed = [], warnings = []\<rparr>"]
  have k0: "is_Exception ?e" by simp
  from a have k1: "fst (keepalive GET ''2026-01-01T00:00:00+00:00'' (Inl ?e)
        \<lparr>next_session = 0, active = [], calls = []\<rparr>) =
       Inr \<lparr>p_status = ''error'', p_timestamp = Some ''2026-01-01T00:00:00+00:00'',
            p_database = Some ''error'', p_message = Some ''connection refused''\<rparr>"
    by simp
  have k2: "(\<lambda>(q::history_query) (db::unit). (Inl ?e :: exn + string reading list))
        \<lparr>q_smart_band_id = 1, q_limit = 10\<rparr> () = Inl ?e"
    by simp
  from a have k3: "get_heart_rate_history
      (\<lambda>(q::history_query) (db::unit). (Inl ?e :: exn + string reading list)) 1 None () = Inl ?e"
    by simp
  from a have k4: "get_heart_rate_statistics (\<lambda>(i::int) (db::unit). (Inl ?e :: exn + nat))
      (\<lambda>s::nat. (Inr s :: exn + nat)) 1 () = Inl ?e"
    by simp
  from b have k5: "get_heart_rate_statistics (\<lambda>(i::int) (db::unit). (Inr 0 :: exn + nat))
      (\<lambda>s::nat. (Inl ?e :: exn + nat)) 1 () = Inl ?e"
    by simp
  from a h2 have k6: "fst (record_heart_rate (\<lambda>(c::command) (db::unit). (Inl ?e :: exn + int, db))
        ?none (\<lambda>v. v) ?good ()) = Inl (HTTPException 500 ''Internal server error: connection refused'')"
    by simp
  from b h2 have k7: "fst (record_heart_rate ?ok
        (\<lambda>(i::int) (db::unit). (Inl ?e :: exn + string reading option, db)) (\<lambda>v. v) ?good ()) =
       Inl (HTTPException 500 ''Internal server error: connection refused'')"
    by simp
  from b have k8: "fst (get_db_session_exit None (Throw ?e) 0
        \<lparr>next_session = 1, active = [0], calls = []\<rparr>) = Some ?e"
    by simp
  from a have k9: "set_timezone None (Some ?e) None
        \<lparr>cursors_open = 0, executed = [], warnings = []\<rparr> =
       (None, \<lparr>cursors_open = 1, executed = [],
                warnings = [''Could not set timezone: connection refused'']\<rparr>)"
    by simp
  from a have k10: "value_error_handler ?e =
       \<lparr>ve_error = ''Validation Error'', ve_detail = ''connection refused''\<rparr>"
    by simp
  show ?thesis
    using k0 k1 k2 k3 k4 k5 k6 k7 k8 k9 k10 h2 by simp
qed

text \<open>
  C10. A HEAD request to the keep-alive endpoint answers \<open>alive\<close> and leaves the pool
  as it was: no session is made and no statement is executed. A GET request makes a
  session and executes one statement on it, so the pool changes.
\<close>

theorem keepalive_head_leaves_the_store:
  "keepalive HEAD now probe p =
     (Inr \<lparr>p_status = ''alive'', p_timestamp = None, p_database = None, p_message = None\<rparr>, p)
   \<and> snd (keepalive GET now probe p) =
       p\<lparr>next_session := Suc (next_session p), active := active p @ [next_session p],
         calls := calls p @ [(next_session p, Execute ''SELECT 1'')]\<rparr>
   \<and> snd (keepalive GET now probe p) \<noteq> p"
proof -
  have 1: "keepalive HEAD now probe p =
     (Inr \<lparr>p_status = ''alive'', p_timestamp = None, p_database = None, p_message = None\<rparr>, p)"
    by (simp add: keepalive_def)
  have 2: "snd (keepalive GET now probe p) =
       p\<lparr>next_session := Suc (next_session p), active := active p @ [next_session p],
         calls := calls p @ [(next_session p, Execute ''SELECT 1'')]\<rparr>"
    by (simp add: keepalive_def get_db_session_enter_def async_session_maker_def
        session_call_def Let_def split: sum.splits)
  have "next_session (snd (keepalive GET now probe p)) \<noteq> next_session p"
    unfolding 2 by simp
  then have 3: "snd (keepalive GET now probe p) \<noteq> p" by metis
  from 1 2 3 show ?thesis by blast
qed

end
